theory Spec2Isabelle
  imports Main
begin

section \<open>Moodyssey: the persistence and authentication core of main.py\<close>

text \<open>
  The development follows \<^verbatim>\<open>src/main.py\<close>: the class \<^verbatim>\<open>MoodEntry\<close>, the
  data managers (\<^verbatim>\<open>DataManager\<close>, \<^verbatim>\<open>UserDataManager\<close>,
  \<^verbatim>\<open>MoodEntriesDataManager\<close>), the submit handler of \<^verbatim>\<open>mood_input_page\<close> and
  \<^verbatim>\<open>get_mood_category\<close>. Python values that cross the JSON boundary are values of the
  datatype \<open>json\<close>; a raised exception is the left injection of a sum type.
\<close>

subsection \<open>Mood categories\<close>

text \<open>
  \<^verbatim>\<open>MOOD_CATEGORIES\<close> is a dict literal; Python dicts iterate in insertion order, so
  the table is an association list in the order of the literal.
\<close>

definition MOOD_CATEGORIES :: "(string \<times> string list) list" where
  "MOOD_CATEGORIES =
     [(''Positive'', [''Happy'', ''Excited'']),
      (''Neutral'', [''Neutral'']),
      (''Negative'', [''Sad'', ''Angry'', ''Anxious'', ''Tired''])]"

text \<open>The loop \<^verbatim>\<open>for category, moods in MOOD_CATEGORIES.items()\<close> with its fallback.\<close>

fun category_scan :: "(string \<times> string list) list \<Rightarrow> string \<Rightarrow> string" where
  "category_scan [] mood = ''Unknown''"
| "category_scan ((category, moods) # rest) mood =
     (if mood \<in> set moods then category else category_scan rest mood)"

definition get_mood_category :: "string \<Rightarrow> string" where
  "get_mood_category mood = category_scan MOOD_CATEGORIES mood"

text \<open>The options of the select box in \<^verbatim>\<open>mood_input_page\<close>: the enumerated moods.\<close>

definition mood_options :: "string list" where
  "mood_options = [''Happy'', ''Neutral'', ''Sad'', ''Angry'', ''Anxious'', ''Tired'', ''Excited'']"

subsection \<open>Python values and exceptions\<close>

text \<open>
  What \<^verbatim>\<open>json.load\<close> returns and \<^verbatim>\<open>json.dump\<close> accepts. A JSON object is a
  Python dict: an association list read with \<open>map_of\<close>. Numbers are integers; the code
  never computes with a loaded number, it only truth-tests it. A Python str is a
  \<open>string\<close>: the bytes of its UTF-8 encoding.
\<close>

datatype json =
    JNull
  | JBool bool
  | JNum int
  | JStr string
  | JArr "json list"
  | JObj "(string \<times> json) list"

datatype exn = KeyError string | TypeError | ValueError | AttributeError

text \<open>Truth value of an object, as \<^verbatim>\<open>if raw_entries\<close> tests it.\<close>

fun truthy :: "json \<Rightarrow> bool" where
  "truthy JNull = False"
| "truthy (JBool b) = b"
| "truthy (JNum n) = (n \<noteq> 0)"
| "truthy (JStr s) = (s \<noteq> [])"
| "truthy (JArr xs) = (xs \<noteq> [])"
| "truthy (JObj kvs) = (kvs \<noteq> [])"

text \<open>
  \<^verbatim>\<open>for entry in raw_entries\<close>: a list yields its elements, a dict its keys, a string
  its characters (one string for each byte here; \<open>from_dict\<close> raises on any string); the
  other values are not iterable.
\<close>

fun py_iter :: "json \<Rightarrow> exn + json list" where
  "py_iter (JArr xs) = Inr xs"
| "py_iter (JObj kvs) = Inr (map (\<lambda>kv. JStr (fst kv)) kvs)"
| "py_iter (JStr s) = Inr (map (\<lambda>c. JStr [c]) s)"
| "py_iter _ = Inl TypeError"

text \<open>\<^verbatim>\<open>data[key]\<close> with a string key: only a dict can be subscripted by a string.\<close>

fun getitem :: "json \<Rightarrow> string \<Rightarrow> exn + json" where
  "getitem (JObj kvs) key = (case map_of kvs key of None \<Rightarrow> Inl (KeyError key) | Some v \<Rightarrow> Inr v)"
| "getitem _ key = Inl TypeError"

text \<open>\<^verbatim>\<open>data.get(key)\<close>: the value or None; only a dict has the method.\<close>

fun dict_get :: "json \<Rightarrow> string \<Rightarrow> exn + json" where
  "dict_get (JObj kvs) key = (case map_of kvs key of None \<Rightarrow> Inr JNull | Some v \<Rightarrow> Inr v)"
| "dict_get _ key = Inl AttributeError"

text \<open>Substring test, for \<^verbatim>\<open>key in s\<close> on a string \<open>s\<close>.\<close>

fun is_substring :: "string \<Rightarrow> string \<Rightarrow> bool" where
  "is_substring u [] = (u = [])"
| "is_substring u (c # s) = (take (length u) (c # s) = u \<or> is_substring u s)"

text \<open>
  \<^verbatim>\<open>key in container\<close> with a string key: key membership on a dict, element
  membership on a list, substring on a string, TypeError on the rest.
\<close>

fun contains :: "json \<Rightarrow> string \<Rightarrow> exn + bool" where
  "contains (JObj kvs) key = Inr (key \<in> set (map fst kvs))"
| "contains (JArr xs) key = Inr (JStr key \<in> set xs)"
| "contains (JStr s) key = Inr (is_substring key s)"
| "contains _ key = Inl TypeError"

text \<open>
  \<^verbatim>\<open>d[key] = value\<close> on a dict replaces the value of an existing key in place and
  appends a new key at the end.
\<close>

fun dict_update :: "string \<Rightarrow> json \<Rightarrow> (string \<times> json) list \<Rightarrow> (string \<times> json) list" where
  "dict_update key v [] = [(key, v)]"
| "dict_update key v ((k, w) # kvs) =
     (if k = key then (k, v) # kvs else (k, w) # dict_update key v kvs)"

fun setitem :: "json \<Rightarrow> string \<Rightarrow> json \<Rightarrow> exn + json" where
  "setitem (JObj kvs) key v = Inr (JObj (dict_update key v kvs))"
| "setitem _ key v = Inl TypeError"

text \<open>A list comprehension whose body can raise: the first exception ends it.\<close>

fun comprehension :: "('a \<Rightarrow> exn + 'b) \<Rightarrow> 'a list \<Rightarrow> exn + 'b list" where
  "comprehension f [] = Inr []"
| "comprehension f (x # xs) =
     (case f x of
        Inl e \<Rightarrow> Inl e
      | Inr y \<Rightarrow> (case comprehension f xs of Inl e \<Rightarrow> Inl e | Inr ys \<Rightarrow> Inr (y # ys)))"

subsection \<open>The datetime library\<close>

text \<open>
  A model of the part of Python's \<^verbatim>\<open>datetime\<close> that the program calls, for naive
  datetimes (the program creates them with \<^verbatim>\<open>datetime.utcnow()\<close>):
  \<^verbatim>\<open>isoformat()\<close> writes \<^verbatim>\<open>YYYY-MM-DDTHH:MM:SS\<close>, followed by \<^verbatim>\<open>.ffffff\<close> when the
  microsecond is not 0, and \<^verbatim>\<open>fromisoformat\<close> reads these two forms back and checks
  the ranges of the fields. Other strings that some version of the library accepts (a
  date alone, a UTC offset) are a ValueError here; no theorem below rests on that.
\<close>

record datetime =
  year :: nat
  month :: nat
  day :: nat
  hour :: nat
  minute :: nat
  second :: nat
  microsecond :: nat

definition is_leap :: "nat \<Rightarrow> bool" where
  "is_leap y = (y mod 4 = 0 \<and> (y mod 100 \<noteq> 0 \<or> y mod 400 = 0))"

definition days_in_month :: "nat \<Rightarrow> nat \<Rightarrow> nat" where
  "days_in_month y m =
     (if m = 2 then (if is_leap y then 29 else 28)
      else if m \<in> {4, 6, 9, 11} then 30 else 31)"

definition valid_datetime :: "datetime \<Rightarrow> bool" where
  "valid_datetime t =
     (1 \<le> year t \<and> year t \<le> 9999 \<and> 1 \<le> month t \<and> month t \<le> 12 \<and>
      1 \<le> day t \<and> day t \<le> days_in_month (year t) (month t) \<and>
      hour t < 24 \<and> minute t < 60 \<and> second t < 60 \<and> microsecond t < 1000000)"

definition digit_char :: "nat \<Rightarrow> char" where
  "digit_char d = char_of (48 + d)"

text \<open>The number \<open>n\<close> in \<open>w\<close> decimal digits, zero-padded (\<^verbatim>\<open>"%0wd"\<close>).\<close>

fun pad :: "nat \<Rightarrow> nat \<Rightarrow> string" where
  "pad 0 n = []"
| "pad (Suc w) n = pad w (n div 10) @ [digit_char (n mod 10)]"

definition isoformat :: "datetime \<Rightarrow> string" where
  "isoformat t =
     pad 4 (year t) @ ''-'' @ pad 2 (month t) @ ''-'' @ pad 2 (day t) @ ''T'' @
     pad 2 (hour t) @ '':'' @ pad 2 (minute t) @ '':'' @ pad 2 (second t) @
     (if microsecond t = 0 then [] else ''.'' @ pad 6 (microsecond t))"

definition digit_val :: "char \<Rightarrow> nat option" where
  "digit_val c =
     (let k = (of_char c :: nat) in if 48 \<le> k \<and> k \<le> 57 then Some (k - 48) else None)"

text \<open>A string of decimal digits as a number, read from the left with an accumulator.\<close>

fun read_digits :: "nat \<Rightarrow> string \<Rightarrow> nat option" where
  "read_digits acc [] = Some acc"
| "read_digits acc (c # cs) =
     (case digit_val c of None \<Rightarrow> None | Some d \<Rightarrow> read_digits (10 * acc + d) cs)"

definition field :: "string \<Rightarrow> nat \<Rightarrow> nat \<Rightarrow> nat option" where
  "field s pos len = read_digits 0 (take len (drop pos s))"

definition fromisoformat :: "string \<Rightarrow> exn + datetime" where
  "fromisoformat s =
     (if (length s = 19 \<or> (length s = 26 \<and> s ! 19 = CHR ''.'')) \<and>
         s ! 4 = CHR ''-'' \<and> s ! 7 = CHR ''-'' \<and> s ! 10 = CHR ''T'' \<and>
         s ! 13 = CHR '':'' \<and> s ! 16 = CHR '':''
      then
        (case (field s 0 4, field s 5 2, field s 8 2, field s 11 2, field s 14 2, field s 17 2,
               if length s = 19 then Some 0 else field s 20 6) of
           (Some y, Some mo, Some d, Some h, Some mi, Some sec, Some us) \<Rightarrow>
             (let t = \<lparr>year = y, month = mo, day = d, hour = h, minute = mi,
                       second = sec, microsecond = us\<rparr>
              in if valid_datetime t then Inr t else Inl ValueError)
         | _ \<Rightarrow> Inl ValueError)
      else Inl ValueError)"

subsection \<open>MoodEntry\<close>

text \<open>
  The attributes \<^verbatim>\<open>_mood\<close>, \<^verbatim>\<open>_note\<close> and \<^verbatim>\<open>_timestamp\<close>. The constructor checks the
  mood only, so a note is whatever object it was given: a string or None from the form,
  any JSON value from a file.
\<close>

record MoodEntry =
  mood :: string
  "note" :: json
  timestamp :: datetime

text \<open>
  \<^verbatim>\<open>__init__(self, mood, note=None, timestamp=None)\<close>. The last argument is the clock:
  what \<^verbatim>\<open>datetime.utcnow()\<close> returns if it is called, which happens only when no
  timestamp is given (a datetime object is never false).
\<close>

fun MoodEntry_init :: "json \<Rightarrow> json \<Rightarrow> datetime option \<Rightarrow> datetime \<Rightarrow> exn + MoodEntry" where
  "MoodEntry_init (JStr m) n ts utcnow =
     (if m = [] then Inl ValueError
      else Inr \<lparr>mood = m, note = n,
                timestamp = (case ts of Some t \<Rightarrow> t | None \<Rightarrow> utcnow)\<rparr>)"
| "MoodEntry_init _ n ts utcnow = Inl ValueError"

definition to_dict :: "MoodEntry \<Rightarrow> json" where
  "to_dict e =
     JObj [(''mood'', JStr (mood e)),
           (''note'', note e),
           (''timestamp'', JStr (isoformat (timestamp e)))]"

text \<open>
  \<^verbatim>\<open>from_dict\<close> evaluates \<^verbatim>\<open>data["timestamp"]\<close>, parses it (a TypeError when it is
  not a string), then evaluates \<^verbatim>\<open>data["mood"]\<close> and \<^verbatim>\<open>data.get("note")\<close> and calls
  the constructor with the timestamp, so that the clock is not read.
\<close>

definition from_dict :: "json \<Rightarrow> exn + MoodEntry" where
  "from_dict data =
     (case getitem data ''timestamp'' of
        Inl e \<Rightarrow> Inl e
      | Inr ts \<Rightarrow>
          (case (case ts of JStr s \<Rightarrow> fromisoformat s | _ \<Rightarrow> Inl TypeError) of
             Inl e \<Rightarrow> Inl e
           | Inr t \<Rightarrow>
               (case getitem data ''mood'' of
                  Inl e \<Rightarrow> Inl e
                | Inr m \<Rightarrow>
                    (case dict_get data ''note'' of
                       Inl e \<Rightarrow> Inl e
                     | Inr n \<Rightarrow> MoodEntry_init m n (Some t) t))))"

subsection \<open>Files\<close>

text \<open>
  A file, as the program can observe it through \<^verbatim>\<open>os.path.exists\<close>, \<^verbatim>\<open>os.stat\<close>,
  \<^verbatim>\<open>open\<close> and \<^verbatim>\<open>json.load\<close>:
  \<^item> \<open>Empty\<close>: the file has size 0;
  \<^item> \<open>Corrupt\<close>: it is not empty and \<^verbatim>\<open>json.load\<close> raises JSONDecodeError (or another
    ValueError) on it;
  \<^item> \<open>Unreadable\<close>: it is not empty and opening or reading it raises another exception
    (permission denied, say);
  \<^item> \<open>Json v\<close>: it holds a JSON text that \<^verbatim>\<open>json.load\<close> reads as \<open>v\<close>; the text that
    \<^verbatim>\<open>json.dump\<close> writes for \<open>v\<close> is such a file.
  The file system maps a path to its file, None when the path does not exist.
\<close>

datatype content = Empty | Corrupt | Unreadable | Json json

type_synonym fs = "string \<Rightarrow> content option"

text \<open>What Streamlit shows: \<^verbatim>\<open>st.warning\<close> and \<^verbatim>\<open>st.error\<close>, with the path they name.\<close>

datatype signal = St_warning string | St_error string

text \<open>
  What the operating system does to a write: nothing wrong, \<^verbatim>\<open>open(path, "w")\<close> fails
  (the file is not touched), or the write fails after \<^verbatim>\<open>open\<close> has truncated the file
  and that many bytes, fewer than the whole text, have reached it. The text of a list or
  a dict ends with its closing bracket, so a file holding only a part of it is not JSON.
\<close>

datatype wfault = NoFault | OpenFails | WriteFails nat

subsection \<open>DataManager\<close>

text \<open>\<^verbatim>\<open>DataManager._load_raw_data\<close>, with the path in place of \<^verbatim>\<open>self._file_path\<close>.\<close>

definition load_raw_data :: "fs \<Rightarrow> string \<Rightarrow> signal list \<times> json" where
  "load_raw_data fs file_path =
     (case fs file_path of
        None \<Rightarrow> ([], JObj [])
      | Some Empty \<Rightarrow> ([], JObj [])
      | Some (Json v) \<Rightarrow> ([], v)
      | Some Corrupt \<Rightarrow> ([St_warning file_path], JObj [])
      | Some Unreadable \<Rightarrow> ([St_error file_path], JObj []))"

text \<open>\<^verbatim>\<open>DataManager._save_raw_data\<close>: the new file system, the signals and the result.\<close>

definition save_raw_data :: "wfault \<Rightarrow> fs \<Rightarrow> string \<Rightarrow> json \<Rightarrow> fs \<times> signal list \<times> bool" where
  "save_raw_data fault fs file_path data =
     (case fault of
        NoFault \<Rightarrow> (fs(file_path \<mapsto> Json data), [], True)
      | OpenFails \<Rightarrow> (fs, [St_error file_path], False)
      | WriteFails n \<Rightarrow>
          (fs(file_path \<mapsto> (if n = 0 then Empty else Corrupt)), [St_error file_path], False))"

subsection \<open>UserDataManager\<close>

definition users_file :: string where
  "users_file = ''users.json''"

definition UserDataManager_load :: "fs \<Rightarrow> signal list \<times> json" where
  "UserDataManager_load fs = load_raw_data fs users_file"

definition UserDataManager_save :: "wfault \<Rightarrow> fs \<Rightarrow> json \<Rightarrow> fs \<times> signal list \<times> bool" where
  "UserDataManager_save fault fs users = save_raw_data fault fs users_file users"

text \<open>
  The bcrypt library is a parameter: \<open>hashpw password salt\<close> is the hash string, or
  the exception bcrypt raises on the password, and \<open>checkpw password hashed\<close> is the
  verdict, or the exception bcrypt raises on the password or on a string that is not a
  hash. Neither call is inside a \<^verbatim>\<open>try\<close>, so an exception of the library leaves the
  function. \<open>salt\<close> is what \<^verbatim>\<open>bcrypt.gensalt()\<close> returned for this call and \<open>fault\<close> what
  happens to the write. An exception leaves the function before anything is written.
\<close>

definition register_user ::
  "(string \<Rightarrow> string \<Rightarrow> exn + string) \<Rightarrow> string \<Rightarrow> wfault \<Rightarrow> fs \<Rightarrow> string \<Rightarrow> string \<Rightarrow>
     fs \<times> signal list \<times> (exn + bool \<times> string)" where
  "register_user hashpw salt fault fs username password =
     (case UserDataManager_load fs of (sigs, users) \<Rightarrow>
        (case contains users username of
           Inl e \<Rightarrow> (fs, sigs, Inl e)
         | Inr present \<Rightarrow>
             if present then (fs, sigs, Inr (False, ''Username already exists.''))
             else
               (case hashpw password salt of
                  Inl e \<Rightarrow> (fs, sigs, Inl e)
                | Inr hashed_pass \<Rightarrow>
                    (case setitem users username
                            (JObj [(''hashed_password'', JStr hashed_pass)]) of
                       Inl e \<Rightarrow> (fs, sigs, Inl e)
                     | Inr users' \<Rightarrow>
                         (case UserDataManager_save fault fs users' of (fs', sigs', ok) \<Rightarrow>
                            if ok
                            then (fs', sigs @ sigs',
                                  Inr (True, ''Account created successfully! You can now log in.''))
                            else (fs', sigs @ sigs',
                                  Inr (False, ''Failed to create account due to a saving error.'')))))))"

definition authenticate_user ::
  "(string \<Rightarrow> string \<Rightarrow> exn + bool) \<Rightarrow> fs \<Rightarrow> string \<Rightarrow> string \<Rightarrow>
     signal list \<times> (exn + bool \<times> string)" where
  "authenticate_user checkpw fs username password =
     (case UserDataManager_load fs of (sigs, users) \<Rightarrow>
        (case contains users username of
           Inl e \<Rightarrow> (sigs, Inl e)
         | Inr present \<Rightarrow>
             if \<not> present then (sigs, Inr (False, ''Username not found.''))
             else
               (case getitem users username of
                  Inl e \<Rightarrow> (sigs, Inl e)
                | Inr account \<Rightarrow>
                    (case getitem account ''hashed_password'' of
                       Inl e \<Rightarrow> (sigs, Inl e)
                     | Inr (JStr hashed) \<Rightarrow>
                         (case checkpw password hashed of
                            Inl e \<Rightarrow> (sigs, Inl e)
                          | Inr ok \<Rightarrow>
                              if ok then (sigs, Inr (True, ''Logged in successfully!''))
                              else (sigs, Inr (False, ''Incorrect password.'')))
                     | Inr _ \<Rightarrow> (sigs, Inl AttributeError)))))"

subsection \<open>MoodEntriesDataManager\<close>

definition entries_file :: "string \<Rightarrow> string" where
  "entries_file username = ''mood_entries_'' @ username @ ''.json''"

text \<open>
  \<^verbatim>\<open>MoodEntriesDataManager.load\<close>: the comprehension over the raw data runs after
  \<^verbatim>\<open>_load_raw_data\<close> has returned, outside its \<^verbatim>\<open>try\<close>.
\<close>

definition MoodEntriesDataManager_load :: "fs \<Rightarrow> string \<Rightarrow> signal list \<times> (exn + MoodEntry list)" where
  "MoodEntriesDataManager_load fs username =
     (case load_raw_data fs (entries_file username) of (sigs, raw_entries) \<Rightarrow>
        (sigs,
         if truthy raw_entries
         then (case py_iter raw_entries of
                 Inl e \<Rightarrow> Inl e
               | Inr entries \<Rightarrow> comprehension from_dict entries)
         else Inr []))"

definition MoodEntriesDataManager_save ::
  "wfault \<Rightarrow> fs \<Rightarrow> string \<Rightarrow> MoodEntry list \<Rightarrow> fs \<times> signal list \<times> bool" where
  "MoodEntriesDataManager_save fault fs username entries =
     save_raw_data fault fs (entries_file username) (JArr (map to_dict entries))"

subsection \<open>Submitting a mood\<close>

text \<open>
  The note typed into the form is inspected character by character, so it is a list of
  Unicode code points here. \<^verbatim>\<open>str.strip()\<close> removes the leading and trailing characters
  for which \<^verbatim>\<open>str.isspace\<close> holds: the code points below.
\<close>

definition py_isspace :: "nat \<Rightarrow> bool" where
  "py_isspace c =
     ((9 \<le> c \<and> c \<le> 13) \<or> (28 \<le> c \<and> c \<le> 32) \<or> c = 133 \<or> c = 160 \<or> c = 5760 \<or>
      (8192 \<le> c \<and> c \<le> 8202) \<or> c = 8232 \<or> c = 8233 \<or> c = 8239 \<or> c = 8287 \<or>
      c = 12288)"

definition strip :: "nat list \<Rightarrow> nat list" where
  "strip s = rev (dropWhile py_isspace (rev (dropWhile py_isspace s)))"

text \<open>
  The UTF-8 bytes of a code point and of a text: the \<open>string\<close> that stands for it. The
  text of a form field arrives as UTF-8, so it has no surrogate code points.
\<close>

definition utf8_char :: "nat \<Rightarrow> string" where
  "utf8_char c =
     (if c < 128 then [char_of c]
      else if c < 2048 then [char_of (192 + c div 64), char_of (128 + c mod 64)]
      else if c < 65536
        then [char_of (224 + c div 4096), char_of (128 + c div 64 mod 64),
              char_of (128 + c mod 64)]
      else [char_of (240 + c div 262144), char_of (128 + c div 4096 mod 64),
            char_of (128 + c div 64 mod 64), char_of (128 + c mod 64)])"

definition utf8 :: "nat list \<Rightarrow> string" where
  "utf8 s = concat (map utf8_char s)"

text \<open>The argument \<^verbatim>\<open>note if note.strip() else None\<close> of the constructor.\<close>

definition note_or_None :: "nat list \<Rightarrow> json" where
  "note_or_None note_text = (if strip note_text \<noteq> [] then JStr (utf8 note_text) else JNull)"

text \<open>
  The body of \<^verbatim>\<open>if st.button("Submit Mood")\<close> in \<^verbatim>\<open>mood_input_page\<close>: the append
  operation. The result is whether the save succeeded; \<open>utcnow\<close> is the clock at the call.
\<close>

definition mood_input_page_submit ::
  "datetime \<Rightarrow> wfault \<Rightarrow> fs \<Rightarrow> string \<Rightarrow> string \<Rightarrow> nat list \<Rightarrow>
     fs \<times> signal list \<times> (exn + bool)" where
  "mood_input_page_submit utcnow fault fs username mood_sel note_text =
     (case MoodEntry_init (JStr mood_sel) (note_or_None note_text) None utcnow of
        Inl e \<Rightarrow> (fs, [], Inl e)
      | Inr new_entry \<Rightarrow>
          (case MoodEntriesDataManager_load fs username of
             (sigs, Inl e) \<Rightarrow> (fs, sigs, Inl e)
           | (sigs, Inr all_entries) \<Rightarrow>
               (case MoodEntriesDataManager_save fault fs username (all_entries @ [new_entry]) of
                  (fs', sigs', ok) \<Rightarrow> (fs', sigs @ sigs', Inr ok))))"

subsection \<open>Properties named by the specification\<close>

text \<open>
  The specification's atomic overwrite, in its own words: after a save the backing file
  holds either the whole new sequence (the save succeeded) or what it held before (the
  save failed); no partial write is visible.
\<close>

definition save_atomic :: "wfault \<Rightarrow> fs \<Rightarrow> string \<Rightarrow> MoodEntry list \<Rightarrow> bool" where
  "save_atomic fault fs username entries =
     (case MoodEntriesDataManager_save fault fs username entries of
        (fs', sigs, ok) \<Rightarrow>
          fs' (entries_file username) =
            (if ok then Some (Json (JArr (map to_dict entries))) else fs (entries_file username)))"

text \<open>
  The persisted layout of the account table: a JSON object whose values are objects with
  a string under \<^verbatim>\<open>hashed_password\<close>. \<open>account_table_ok checkpw password\<close> says in
  addition that the hash library returns a verdict, and raises nothing, when it checks
  this password against each hash of the table. A table that is absent, empty, corrupt or
  unreadable loads as the empty table.
\<close>

definition well_formed_account :: "(string \<Rightarrow> string \<Rightarrow> exn + bool) \<Rightarrow> string \<Rightarrow> json \<Rightarrow> bool" where
  "well_formed_account checkpw password account =
     (case getitem account ''hashed_password'' of
        Inr (JStr hashed) \<Rightarrow> (\<exists>ok. checkpw password hashed = Inr ok)
      | _ \<Rightarrow> False)"

definition account_table_ok :: "(string \<Rightarrow> string \<Rightarrow> exn + bool) \<Rightarrow> string \<Rightarrow> fs \<Rightarrow> bool" where
  "account_table_ok checkpw password fs =
     (case fs users_file of
        Some (Json users) \<Rightarrow>
          (case users of
             JObj kvs \<Rightarrow>
               (\<forall>account \<in> snd ` set kvs. well_formed_account checkpw password account)
           | _ \<Rightarrow> False)
      | _ \<Rightarrow> True)"

subsection \<open>Sample values\<close>

text \<open>
  Concrete inputs at which the theorems below are evaluated. The two pairs of functions
  are not bcrypt: they have the shape of its two functions (a hash is a salt of four
  characters followed by the password) and each has the way of one line of bcrypt
  versions with a password of more than 72 bytes. From version 5.0 on bcrypt raises
  ValueError on such a password (\<open>demo_hashpw\<close>, \<open>demo_checkpw\<close>); before, it uses the
  first 72 bytes and ignores the rest (\<open>truncating_hashpw\<close>, \<open>truncating_checkpw\<close>).
\<close>

definition sample_time :: datetime where
  "sample_time =
     \<lparr>year = 2024, month = 3, day = 9, hour = 7, minute = 5, second = 0, microsecond = 120\<rparr>"



definition sample_entry :: MoodEntry where
  "sample_entry = \<lparr>mood = ''Happy'', note = JStr ''sunny'', timestamp = sample_time\<rparr>"




definition demo_hashpw :: "string \<Rightarrow> string \<Rightarrow> exn + string" where
  "demo_hashpw password salt =
     (if 72 < length password then Inl ValueError else Inr (salt @ password))"

definition demo_checkpw :: "string \<Rightarrow> string \<Rightarrow> exn + bool" where
  "demo_checkpw password hashed =
     (if 72 < length password \<or> length hashed < 4 then Inl ValueError
      else Inr (drop 4 hashed = password))"

definition truncating_hashpw :: "string \<Rightarrow> string \<Rightarrow> exn + string" where
  "truncating_hashpw password salt = Inr (salt @ take 72 password)"

definition truncating_checkpw :: "string \<Rightarrow> string \<Rightarrow> exn + bool" where
  "truncating_checkpw password hashed =
     (if length hashed < 4 then Inl ValueError else Inr (drop 4 hashed = take 72 password))"

text \<open>Two passwords of 73 characters that differ in the last one only.\<close>

definition long_password :: string where
  "long_password = replicate 72 (CHR ''a'') @ ''b''"

definition other_long_password :: string where
  "other_long_password = replicate 72 (CHR ''a'') @ ''c''"

definition alice_registered :: fs where
  "alice_registered =
     [users_file \<mapsto> Json (JObj [(''alice'', JObj [(''hashed_password'', JStr ''s4ltx'')])])]"

definition sample_accounts :: fs where
  "sample_accounts =
     [users_file \<mapsto>
        Json (JObj [(''bob'', JObj [(''hashed_password'', JStr ''s4ltsecret123'')])])]"

definition long_registered :: fs where
  "long_registered =
     [users_file \<mapsto>
        Json (JObj [(''bob'', JObj [(''hashed_password'',
          JStr (''s4lt'' @ replicate 72 (CHR ''a'')))])])]"

section \<open>Theorems\<close>

subsection \<open>The datetime round trip\<close>

text \<open>
  \<open>fromisoformat\<close> reads back what \<open>isoformat\<close> writes, for every valid datetime: each
  field is written in a fixed number of digits and read from the same position.
\<close>

lemma length_pad [simp]: "length (pad w n) = w"
  by (induction w arbitrary: n) auto








subsection \<open>Category mapping\<close>

lemma get_mood_category_unfold:
  "get_mood_category m =
     (if m = ''Happy'' \<or> m = ''Excited'' then ''Positive''
      else if m = ''Neutral'' then ''Neutral''
      else if m = ''Sad'' \<or> m = ''Angry'' \<or> m = ''Anxious'' \<or> m = ''Tired'' then ''Negative''
      else ''Unknown'')"
  by (simp add: get_mood_category_def MOOD_CATEGORIES_def)

text \<open>
  Claim C9. The category of Happy is Positive, of Sad is Negative, of Neutral is Neutral,
  and every mood string outside the enumerated set of seven moods has the category
  Unknown.
\<close>

theorem category_mapping:
  "get_mood_category ''Happy'' = ''Positive'' \<and>
   get_mood_category ''Sad'' = ''Negative'' \<and>
   get_mood_category ''Neutral'' = ''Neutral'' \<and>
   (\<forall>m. m \<notin> set mood_options \<longrightarrow> get_mood_category m = ''Unknown'')"
  by (simp add: get_mood_category_unfold mood_options_def)

theorem category_mapping_witness:
  "''Martian'' \<notin> set mood_options \<and> get_mood_category ''Martian'' = ''Unknown''"
proof -
  have out: "''Martian'' \<notin> set mood_options"
    by (simp add: mood_options_def)
  from category_mapping have "''Martian'' \<notin> set mood_options \<longrightarrow> get_mood_category ''Martian'' = ''Unknown''"
    by blast
  with out show ?thesis by simp
qed

text \<open>
  Claim C10. The category mapping is total: every mood string has one of the four
  categories; and the remaining enumerated moods map as follows: Excited is Positive,
  and Angry, Anxious and Tired are Negative.
\<close>

theorem category_total:
  "get_mood_category m \<in> {''Positive'', ''Neutral'', ''Negative'', ''Unknown''} \<and>
   get_mood_category ''Excited'' = ''Positive'' \<and>
   get_mood_category ''Angry'' = ''Negative'' \<and>
   get_mood_category ''Anxious'' = ''Negative'' \<and>
   get_mood_category ''Tired'' = ''Negative''"
  by (simp add: get_mood_category_unfold)

subsection \<open>Serialization of a mood entry\<close>



subsection \<open>Loading records\<close>

text \<open>
  Claim C8. For every user, loading the records when the backing file does not exist or
  has length zero returns the empty sequence, with no exception and no warning or error
  shown.
\<close>

theorem load_absent_or_empty:
  "fs (entries_file u) = None \<or> fs (entries_file u) = Some Empty \<Longrightarrow>
     MoodEntriesDataManager_load fs u = ([], Inr [])"
  by (auto simp: MoodEntriesDataManager_load_def load_raw_data_def)

theorem load_absent_or_empty_witness:
  "MoodEntriesDataManager_load Map.empty ''alice'' = ([], Inr []) \<and>
   MoodEntriesDataManager_load [entries_file ''alice'' \<mapsto> Empty] ''alice'' = ([], Inr [])"
  using load_absent_or_empty [of Map.empty "''alice''"]
    load_absent_or_empty [of "[entries_file ''alice'' \<mapsto> Empty]" "''alice''"]
  by simp

text \<open>
  A file that \<^verbatim>\<open>json.load\<close> rejects, or that cannot be read, gives the empty sequence
  with a warning or an error shown, and no exception.
\<close>

lemma load_corrupt:
  "fs (entries_file u) = Some Corrupt \<Longrightarrow>
     MoodEntriesDataManager_load fs u = ([St_warning (entries_file u)], Inr [])"
  by (simp add: MoodEntriesDataManager_load_def load_raw_data_def)

lemma load_unreadable:
  "fs (entries_file u) = Some Unreadable \<Longrightarrow>
     MoodEntriesDataManager_load fs u = ([St_error (entries_file u)], Inr [])"
  by (simp add: MoodEntriesDataManager_load_def load_raw_data_def)

text \<open>
  Claim C1. For every content of a user's record file, load does not raise; malformed
  content gives a warning and the empty sequence. The code does so for a file that is not
  JSON (\<open>load_corrupt\<close>), but not for every content: on a file that is JSON and does
  not have the layout of a record list the comprehension in load raises. Here the file
  of alice holds one object without a timestamp, and load raises KeyError.
\<close>

theorem load_raises_on_json_of_wrong_shape:
  "MoodEntriesDataManager_load
     [''mood_entries_alice.json'' \<mapsto>
        Json (JArr [JObj [(''mood'', JStr ''Happy''), (''note'', JNull)]])]
     ''alice''
   = ([], Inl (KeyError ''timestamp''))"
  by (simp add: MoodEntriesDataManager_load_def load_raw_data_def entries_file_def from_dict_def)

subsection \<open>Saving records\<close>

text \<open>
  The atomic overwrite fails on the code: \<open>open(path, "w")\<close> truncates the file before
  \<open>json.dump\<close> writes, so a write that fails after three bytes leaves a file that holds
  neither the old records nor the new ones, and save returns False.
\<close>

theorem save_not_atomic:
  "\<not> save_atomic (WriteFails 3) [entries_file ''alice'' \<mapsto> Json (JArr [to_dict sample_entry])]
       ''alice'' [sample_entry, sample_entry]"
  by (simp add: save_atomic_def MoodEntriesDataManager_save_def save_raw_data_def)

text \<open>
  Claim C2, amended. For every user and record sequence, save does not raise (its result
  is always a value); it returns True exactly when no I/O failure occurs, and then the
  backing file holds the serialization of the whole sequence and nothing is reported; on
  an I/O failure it returns False and reports the error. The overwrite is not atomic: a
  failing \<open>open\<close> leaves the file as it was, a failing write leaves it empty or holding
  a part of the text. No other file is touched.
\<close>

theorem save_outcome:
  assumes "MoodEntriesDataManager_save fault fs u es = (fs', sigs, ok)"
  shows "ok = (fault = NoFault) \<and>
    (ok \<longrightarrow> fs' = fs(entries_file u \<mapsto> Json (JArr (map to_dict es))) \<and> sigs = []) \<and>
    (\<not> ok \<longrightarrow> sigs = [St_error (entries_file u)]) \<and>
    (fault = OpenFails \<longrightarrow> fs' = fs) \<and>
    (\<forall>n. fault = WriteFails n \<longrightarrow> fs' = fs(entries_file u \<mapsto> (if n = 0 then Empty else Corrupt))) \<and>
    (\<forall>p. p \<noteq> entries_file u \<longrightarrow> fs' p = fs p)"
  using assms
  by (cases fault) (auto simp: MoodEntriesDataManager_save_def save_raw_data_def)

theorem save_outcome_witness:
  "MoodEntriesDataManager_save NoFault Map.empty ''alice'' [sample_entry]
     = ([entries_file ''alice'' \<mapsto> Json (JArr [to_dict sample_entry])], [], True) \<and>
   MoodEntriesDataManager_save (WriteFails 3) Map.empty ''alice'' [sample_entry]
     = ([entries_file ''alice'' \<mapsto> Corrupt], [St_error (entries_file ''alice'')], False)"
proof -
  obtain fs1 s1 ok1 where a: "MoodEntriesDataManager_save NoFault Map.empty ''alice'' [sample_entry] = (fs1, s1, ok1)"
    by (cases "MoodEntriesDataManager_save NoFault Map.empty ''alice'' [sample_entry]") auto
  obtain fs2 s2 ok2 where b: "MoodEntriesDataManager_save (WriteFails 3) Map.empty ''alice'' [sample_entry] = (fs2, s2, ok2)"
    by (cases "MoodEntriesDataManager_save (WriteFails 3) Map.empty ''alice'' [sample_entry]") auto
  from save_outcome [OF a] save_outcome [OF b] a b show ?thesis
    by simp
qed

subsection \<open>Appending records\<close>











subsection \<open>Registration and login\<close>

lemma map_of_dict_update: "map_of (dict_update k v kvs) = (map_of kvs)(k \<mapsto> v)"
  by (induction kvs) (auto simp: fun_eq_iff)

lemma keys_dict_update: "fst ` set (dict_update k v kvs) = insert k (fst ` set kvs)"
proof (induction kvs)
  case Nil
  then show ?case by simp
next
  case (Cons kv kvs)
  obtain a b where kv: "kv = (a, b)" by (cases kv)
  show ?case
  proof (cases "a = k")
    case True
    then show ?thesis by (simp add: kv)
  next
    case False
    with Cons.IH show ?thesis by (simp add: kv insert_commute)
  qed
qed

lemma set_dict_update: "set (dict_update k v kvs) \<subseteq> insert (k, v) (set kvs)"
  by (induction kvs) (auto split: if_splits)

lemma load_users_stored:
  "fs users_file = Some (Json v) \<Longrightarrow> UserDataManager_load fs = ([], v)"
  by (simp add: UserDataManager_load_def load_raw_data_def)

lemma load_users_cases:
  assumes "account_table_ok checkpw q fs"
  obtains sigs kvs where "UserDataManager_load fs = (sigs, JObj kvs)"
    and "\<forall>account \<in> snd ` set kvs. well_formed_account checkpw q account"
proof (cases "fs users_file")
  case None
  then have "UserDataManager_load fs = ([], JObj [])"
    by (simp add: UserDataManager_load_def load_raw_data_def)
  then show ?thesis using that by simp
next
  case (Some c)
  show ?thesis
  proof (cases c)
    case (Json users)
    with Some assms obtain kvs where "users = JObj kvs"
      and "\<forall>account \<in> snd ` set kvs. well_formed_account checkpw q account"
      by (cases users) (auto simp: account_table_ok_def)
    moreover from Some Json have "UserDataManager_load fs = ([], users)"
      by (simp add: load_users_stored)
    ultimately show ?thesis using that by simp
  qed (use Some that in \<open>auto simp: UserDataManager_load_def load_raw_data_def\<close>)
qed

lemma register_success:
  assumes "register_user hashpw salt fault fs u p = (fs1, sigs, Inr (True, msg))"
  shows "\<exists>kvs h. snd (UserDataManager_load fs) = JObj kvs \<and> u \<notin> set (map fst kvs) \<and>
    hashpw p salt = Inr h \<and>
    fs1 = fs(users_file \<mapsto>
      Json (JObj (dict_update u (JObj [(''hashed_password'', JStr h)]) kvs)))"
proof -
  obtain s0 users where l: "UserDataManager_load fs = (s0, users)"
    by (cases "UserDataManager_load fs") auto
  show ?thesis
  proof (cases users)
    case (JObj kvs)
    with assms l show ?thesis
      by (cases fault; cases "hashpw p salt")
         (auto simp: register_user_def UserDataManager_save_def save_raw_data_def
           split: if_splits)
  qed (use assms l in \<open>auto simp: register_user_def split: if_splits sum.splits\<close>)
qed

lemma authenticate_stored:
  assumes "fs1 users_file = Some (Json (JObj kvs))"
    and "map_of kvs u = Some (JObj [(''hashed_password'', JStr h)])"
  shows "authenticate_user checkpw fs1 u q =
      (case checkpw q h of
         Inl e \<Rightarrow> ([], Inl e)
       | Inr ok \<Rightarrow> if ok then ([], Inr (True, ''Logged in successfully!''))
                   else ([], Inr (False, ''Incorrect password.'')))"
proof -
  from assms(2) have "u \<in> fst ` set kvs"
    by (metis domI dom_map_of_conv_image_fst)
  with assms show ?thesis
    by (simp add: authenticate_user_def load_users_stored)
qed

lemma authenticate_absent:
  assumes "fs1 users_file = Some (Json (JObj kvs))" and "v \<notin> set (map fst kvs)"
  shows "authenticate_user checkpw fs1 v q = ([], Inr (False, ''Username not found.''))"
  using assms by (simp add: authenticate_user_def load_users_stored)

lemma register_alice:
  "register_user demo_hashpw ''s4lt'' NoFault Map.empty ''alice'' ''x''
     = (alice_registered, [], Inr (True, ''Account created successfully! You can now log in.''))"
  by (simp add: register_user_def UserDataManager_load_def load_raw_data_def
      UserDataManager_save_def save_raw_data_def alice_registered_def demo_hashpw_def)

lemma register_bob:
  "register_user demo_hashpw ''s4lt'' NoFault Map.empty ''bob'' ''secret123''
     = (sample_accounts, [], Inr (True, ''Account created successfully! You can now log in.''))"
  by (simp add: register_user_def UserDataManager_load_def load_raw_data_def
      UserDataManager_save_def save_raw_data_def sample_accounts_def demo_hashpw_def)

lemma register_long:
  "register_user truncating_hashpw ''s4lt'' NoFault Map.empty ''bob'' long_password
     = (long_registered, [], Inr (True, ''Account created successfully! You can now log in.''))"
  by (simp add: register_user_def UserDataManager_load_def load_raw_data_def
      UserDataManager_save_def save_raw_data_def long_registered_def truncating_hashpw_def
      long_password_def)

text \<open>
  Claim C3. For every username \<open>u\<close> and passwords \<open>p1\<close>, \<open>p2\<close>: after
  \<open>register(u, p1)\<close> has succeeded, a second \<open>register(u, p2)\<close> fails with
  DuplicateUsername (the result False with the message that the username exists), whatever
  the salt and the state of the disk; the failed call writes nothing, so the account table
  still holds the hash of \<open>p1\<close> for \<open>u\<close>. The match is exact: a name is refused as a
  duplicate exactly when it is a key of the table.
\<close>

theorem register_twice:
  assumes "register_user hashpw salt1 fault1 fs u p1 = (fs1, sigs1, Inr (True, msg))"
  shows "register_user hashpw salt2 fault2 fs1 u p2 = (fs1, [], Inr (False, ''Username already exists.'')) \<and>
    (\<exists>kvs h. hashpw p1 salt1 = Inr h \<and> fs1 users_file = Some (Json (JObj kvs)) \<and>
       map_of kvs u = Some (JObj [(''hashed_password'', JStr h)]) \<and>
       (\<forall>v. (snd (snd (register_user hashpw salt2 fault2 fs1 v p2))
                = Inr (False, ''Username already exists.'')) = (v \<in> set (map fst kvs))))"
proof -
  from register_success [OF assms] obtain kvs h where h: "hashpw p1 salt1 = Inr h" and
    fs1: "fs1 = fs(users_file \<mapsto>
      Json (JObj (dict_update u (JObj [(''hashed_password'', JStr h)]) kvs)))"
    by blast
  let ?kvs = "dict_update u (JObj [(''hashed_password'', JStr h)]) kvs"
  have stored: "fs1 users_file = Some (Json (JObj ?kvs))"
    by (simp add: fs1)
  have l: "UserDataManager_load fs1 = ([], JObj ?kvs)"
    using stored by (rule load_users_stored)
  have dup: "register_user hashpw salt2 fault2 fs1 u p2 = (fs1, [], Inr (False, ''Username already exists.''))"
    by (simp add: register_user_def l keys_dict_update)
  have iff: "(snd (snd (register_user hashpw salt2 fault2 fs1 v p2))
                = Inr (False, ''Username already exists.'')) = (v \<in> set (map fst ?kvs))" for v
    by (cases fault2; cases "hashpw p2 salt2")
       (auto simp: register_user_def l UserDataManager_save_def save_raw_data_def)
  from dup stored iff h show ?thesis
    by (auto simp: map_of_dict_update)
qed

theorem register_twice_witness:
  "register_user demo_hashpw ''pepr'' NoFault alice_registered ''alice'' ''y''
     = (alice_registered, [], Inr (False, ''Username already exists.'')) \<and>
   alice_registered users_file =
     Some (Json (JObj [(''alice'', JObj [(''hashed_password'', JStr ''s4ltx'')])]))"
  using register_twice [OF register_alice, of "''pepr''" NoFault "''y''"]
  by (simp add: alice_registered_def)

text \<open>
  Claim C4 fails as stated: a password other than the registered one is not always
  refused. With a hash library that uses the first 72 bytes of a password, as bcrypt did
  before version 5.0, bob registers with a password of 73 characters and then logs in
  with another password that differs in the last character. With a library that raises
  on such a password, as bcrypt does from 5.0 on, the login of the registered bob with it
  is a ValueError and not the result InvalidCredential.
\<close>

theorem other_password_not_refused:
  "register_user truncating_hashpw ''s4lt'' NoFault Map.empty ''bob'' long_password
     = (long_registered, [], Inr (True, ''Account created successfully! You can now log in.'')) \<and>
   other_long_password \<noteq> long_password \<and>
   authenticate_user truncating_checkpw long_registered ''bob'' other_long_password
     = ([], Inr (True, ''Logged in successfully!'')) \<and>
   register_user demo_hashpw ''s4lt'' NoFault Map.empty ''bob'' ''secret123''
     = (sample_accounts, [], Inr (True, ''Account created successfully! You can now log in.'')) \<and>
   other_long_password \<noteq> ''secret123'' \<and>
   authenticate_user demo_checkpw sample_accounts ''bob'' other_long_password
     = ([], Inl ValueError)"
proof -
  have ne: "other_long_password \<noteq> long_password" "other_long_password \<noteq> ''secret123''"
    by (simp_all add: other_long_password_def long_password_def)
  have a: "authenticate_user truncating_checkpw long_registered ''bob'' other_long_password
     = ([], Inr (True, ''Logged in successfully!''))"
    using authenticate_stored [of long_registered _ "''bob''" _ truncating_checkpw other_long_password]
    by (simp add: long_registered_def truncating_checkpw_def other_long_password_def)
  have b: "authenticate_user demo_checkpw sample_accounts ''bob'' other_long_password
     = ([], Inl ValueError)"
    using authenticate_stored [of sample_accounts _ "''bob''" _ demo_checkpw other_long_password]
    by (simp add: sample_accounts_def demo_checkpw_def other_long_password_def)
  from register_long register_bob ne a b show ?thesis
    by simp
qed

text \<open>
  Claim C4, amended. For every username \<open>u\<close> and password \<open>p\<close>: after \<open>register(u, p)\<close>
  has succeeded, the table holds the hash of \<open>p\<close> for \<open>u\<close>, and \<open>authenticate(u, q)\<close>
  returns what the hash library says of \<open>q\<close> against that hash: it succeeds when the
  library accepts \<open>q\<close> (as it does for \<open>p\<close> itself, the premise), it fails with
  InvalidCredential when the library rejects \<open>q\<close>, and an exception of the library leaves
  the function. So a password other than \<open>p\<close> fails with InvalidCredential exactly
  when the library rejects it. For any username \<open>v\<close> that is not in the account table
  \<open>authenticate(v, q)\<close> fails with UnknownUsername.
\<close>

theorem authenticate_registered:
  assumes reg: "register_user hashpw salt fault fs u p = (fs1, sigs1, Inr (True, msg))"
    and accept: "\<forall>h. hashpw p salt = Inr h \<longrightarrow> checkpw p h = Inr True"
  shows "\<exists>h kvs. hashpw p salt = Inr h \<and> fs1 users_file = Some (Json (JObj kvs)) \<and>
    map_of kvs u = Some (JObj [(''hashed_password'', JStr h)]) \<and>
    authenticate_user checkpw fs1 u p = ([], Inr (True, ''Logged in successfully!'')) \<and>
    (\<forall>q. checkpw q h = Inr True \<longrightarrow>
       authenticate_user checkpw fs1 u q = ([], Inr (True, ''Logged in successfully!''))) \<and>
    (\<forall>q. checkpw q h = Inr False \<longrightarrow>
       authenticate_user checkpw fs1 u q = ([], Inr (False, ''Incorrect password.''))) \<and>
    (\<forall>q e. checkpw q h = Inl e \<longrightarrow> authenticate_user checkpw fs1 u q = ([], Inl e)) \<and>
    (\<forall>v q. v \<notin> set (map fst kvs) \<longrightarrow>
       authenticate_user checkpw fs1 v q = ([], Inr (False, ''Username not found.'')))"
proof -
  from register_success [OF reg] obtain kvs h where h: "hashpw p salt = Inr h" and
    fs1: "fs1 = fs(users_file \<mapsto>
      Json (JObj (dict_update u (JObj [(''hashed_password'', JStr h)]) kvs)))"
    by blast
  let ?kvs = "dict_update u (JObj [(''hashed_password'', JStr h)]) kvs"
  have stored: "fs1 users_file = Some (Json (JObj ?kvs))"
    by (simp add: fs1)
  have entry: "map_of ?kvs u = Some (JObj [(''hashed_password'', JStr h)])"
    by (simp add: map_of_dict_update)
  have auth: "authenticate_user checkpw fs1 u q =
      (case checkpw q h of
         Inl e \<Rightarrow> ([], Inl e)
       | Inr ok \<Rightarrow> if ok then ([], Inr (True, ''Logged in successfully!''))
                   else ([], Inr (False, ''Incorrect password.'')))" for q
    using stored entry by (rule authenticate_stored)
  from accept h have "checkpw p h = Inr True"
    by simp
  then have good: "authenticate_user checkpw fs1 u p = ([], Inr (True, ''Logged in successfully!''))"
    by (simp add: auth)
  have yes: "\<forall>q. checkpw q h = Inr True \<longrightarrow>
       authenticate_user checkpw fs1 u q = ([], Inr (True, ''Logged in successfully!''))"
    by (simp add: auth)
  have no: "\<forall>q. checkpw q h = Inr False \<longrightarrow>
       authenticate_user checkpw fs1 u q = ([], Inr (False, ''Incorrect password.''))"
    by (simp add: auth)
  have exc: "\<forall>q e. checkpw q h = Inl e \<longrightarrow> authenticate_user checkpw fs1 u q = ([], Inl e)"
    by (simp add: auth)
  have unknown: "\<forall>v q. v \<notin> set (map fst ?kvs) \<longrightarrow>
       authenticate_user checkpw fs1 v q = ([], Inr (False, ''Username not found.''))"
    using stored by (simp add: authenticate_absent)
  from h stored entry good yes no exc unknown show ?thesis
    by blast
qed

theorem authenticate_registered_witness:
  "authenticate_user demo_checkpw sample_accounts ''bob'' ''secret123''
     = ([], Inr (True, ''Logged in successfully!'')) \<and>
   authenticate_user demo_checkpw sample_accounts ''bob'' ''wrong''
     = ([], Inr (False, ''Incorrect password.'')) \<and>
   authenticate_user demo_checkpw sample_accounts ''carol'' ''x''
     = ([], Inr (False, ''Username not found.''))"
proof -
  have accept: "\<forall>h. demo_hashpw ''secret123'' ''s4lt'' = Inr h \<longrightarrow>
      demo_checkpw ''secret123'' h = Inr True"
    by (auto simp: demo_checkpw_def demo_hashpw_def)
  from authenticate_registered [where checkpw = demo_checkpw and hashpw = demo_hashpw,
      OF register_bob accept]
  obtain h kvs where h: "demo_hashpw ''secret123'' ''s4lt'' = Inr h"
    and stored: "sample_accounts users_file = Some (Json (JObj kvs))"
    and good: "authenticate_user demo_checkpw sample_accounts ''bob'' ''secret123''
       = ([], Inr (True, ''Logged in successfully!''))"
    and no: "\<forall>q. demo_checkpw q h = Inr False \<longrightarrow>
       authenticate_user demo_checkpw sample_accounts ''bob'' q
         = ([], Inr (False, ''Incorrect password.''))"
    and unknown: "\<forall>v q. v \<notin> set (map fst kvs) \<longrightarrow>
       authenticate_user demo_checkpw sample_accounts v q
         = ([], Inr (False, ''Username not found.''))"
    by blast
  from h have "demo_checkpw ''wrong'' h = Inr False"
    by (auto simp: demo_checkpw_def demo_hashpw_def)
  with no have bad: "authenticate_user demo_checkpw sample_accounts ''bob'' ''wrong''
     = ([], Inr (False, ''Incorrect password.''))"
    by blast
  from stored have "''carol'' \<notin> set (map fst kvs)"
    by (auto simp: sample_accounts_def)
  with unknown have "authenticate_user demo_checkpw sample_accounts ''carol'' ''x''
     = ([], Inr (False, ''Username not found.''))"
    by blast
  with good bad show ?thesis
    by simp
qed

text \<open>
  The account table keeps its layout: it has it when no file exists, registration
  preserves it (when the library returns a verdict for the password on the new hash),
  whatever happens to the write, and submitting a mood writes another file.
\<close>

lemma empty_table_ok: "account_table_ok checkpw q Map.empty"
  by (simp add: account_table_ok_def)

lemma register_keeps_table_ok:
  assumes "account_table_ok checkpw q fs"
    and "\<forall>h. hashpw p salt = Inr h \<longrightarrow> (\<exists>ok. checkpw q h = Inr ok)"
  shows "account_table_ok checkpw q (fst (register_user hashpw salt fault fs u p))"
proof -
  from assms(1) obtain sigs kvs where l: "UserDataManager_load fs = (sigs, JObj kvs)"
    and wf: "\<forall>account \<in> snd ` set kvs. well_formed_account checkpw q account"
    by (rule load_users_cases)
  have upd: "\<forall>account \<in> snd ` set (dict_update u a kvs). well_formed_account checkpw q account"
    if "well_formed_account checkpw q a" for a
    using wf that set_dict_update [of u a kvs] by force
  show ?thesis
  proof (cases "hashpw p salt")
    case (Inl e)
    with assms(1) l show ?thesis
      by (simp add: register_user_def)
  next
    case (Inr h)
    with assms(2) have "well_formed_account checkpw q (JObj [(''hashed_password'', JStr h)])"
      by (simp add: well_formed_account_def)
    from upd [OF this] assms(1) l Inr show ?thesis
      by (cases fault)
         (auto simp: register_user_def UserDataManager_save_def save_raw_data_def
           account_table_ok_def)
  qed
qed

lemma submit_keeps_table_ok:
  assumes "account_table_ok checkpw q fs"
  shows "account_table_ok checkpw q (fst (mood_input_page_submit t fault fs u m n))"
proof -
  have other: "entries_file u \<noteq> users_file"
    by (simp add: entries_file_def users_file_def)
  have "fst (mood_input_page_submit t fault fs u m n) users_file = fs users_file"
    using other
    by (cases fault)
       (auto simp: mood_input_page_submit_def MoodEntriesDataManager_save_def save_raw_data_def
         split: sum.splits prod.splits)
  with assms show ?thesis
    by (simp add: account_table_ok_def)
qed







end
